theory Spec2Isabelle
  imports Complex_Main
begin

section \<open>Configuration\<close>

text \<open>
  Gestures are Python strings; the detector's class ids are Python ints. The
  gesture-id map is a dictionary, so a lookup of a key it does not hold raises.
\<close>

definition GESTURES :: "string list" where
  "GESTURES = [''rock'', ''paper'', ''scissors'']"

definition GESTURE_ID_MAP :: "int \<rightharpoonup> string" where
  "GESTURE_ID_MAP = [0 \<mapsto> ''rock'', 1 \<mapsto> ''paper'', 2 \<mapsto> ''scissors'']"

datatype error = IndexError | ValueError | KeyError int

section \<open>What the interpreter chooses\<close>

text \<open>
  Two things in \<^verbatim>\<open>remove_gesture\<close> are not fixed by its arguments: the order in
  which a Python set is iterated when \<^verbatim>\<open>list(...)\<close> is applied to it, and the
  index \<^verbatim>\<open>random.choice\<close> draws. Both are parameters of the model. The order of
  the \<open>k\<close>-th \<^verbatim>\<open>list(...)\<close> call of an invocation is given by a ranking of the
  elements (the list is the set's elements by ascending rank), so that every
  ranking yields a permutation of the set; the random source is a function from
  the length of the sequence to a number, read modulo that length.
\<close>

record env =
  set_rank :: "nat \<Rightarrow> string \<Rightarrow> nat"
  randbelow :: "nat \<Rightarrow> nat"

text \<open>A Python set of strings is kept as a duplicate-free list of its elements.\<close>

definition set_of :: "string list \<Rightarrow> string list" where
  "set_of xs = remdups xs"

definition set_and :: "string list \<Rightarrow> string list \<Rightarrow> string list" where
  "set_and s t = filter (\<lambda>x. x \<in> set t) s"

definition set_sub :: "string list \<Rightarrow> string list \<Rightarrow> string list" where
  "set_sub s t = filter (\<lambda>x. x \<notin> set t) s"

definition list_of :: "(string \<Rightarrow> nat) \<Rightarrow> string list \<Rightarrow> string list" where
  "list_of rk s = sort_key rk s"

text \<open>\<^verbatim>\<open>random.choice(seq)\<close>: IndexError on an empty sequence, else one of its elements.\<close>

definition random_choice :: "env \<Rightarrow> string list \<Rightarrow> error + string" where
  "random_choice e xs =
     (if length xs = 0 then Inl IndexError
      else Inr (xs ! (randbelow e (length xs) mod length xs)))"

section \<open>Game logic\<close>

definition beats :: "string \<Rightarrow> string \<Rightarrow> bool" where
  "beats a b =
     ((a = ''rock'' \<and> b = ''scissors'') \<or>
      (a = ''scissors'' \<and> b = ''paper'') \<or>
      (a = ''paper'' \<and> b = ''rock''))"

definition warning_text :: string where
  "warning_text =
     ''WARNING: Player hand input violates game rules (not exactly 2 distinct gestures). Falling back to arbitrary choice.''"

text \<open>
  The result of \<^verbatim>\<open>remove_gesture\<close> is the lines it printed and either the
  exception it raised or the value it returned.
\<close>

type_synonym outcome = "string list \<times> (error + string)"

text \<open>
  The block under \<^verbatim>\<open>if len(common) == 1\<close>. It returns from the function on three
  of its paths; on the fourth (neither non-common gesture beats the other) control
  falls out of the block, which is the value \<open>None\<close> here.
\<close>

definition common_one_block ::
  "env \<Rightarrow> string list \<Rightarrow> string list \<Rightarrow> string list \<Rightarrow> string list \<Rightarrow> outcome option" where
  "common_one_block e my_hand common my_unique opp_unique =
     (if length my_unique \<noteq> 1 \<or> length opp_unique \<noteq> 1 then
        Some ([warning_text], random_choice e my_hand)
      else
        (let common_gesture = common ! 0;
             my_nc = my_unique ! 0;
             opp_nc = opp_unique ! 0
         in if beats my_nc opp_nc then Some ([], Inr my_nc)
            else if beats opp_nc my_nc then Some ([], Inr common_gesture)
            else None))"

definition remove_gesture :: "env \<Rightarrow> string list \<Rightarrow> string list \<Rightarrow> outcome" where
  "remove_gesture e my_hand opp_hand =
     (let my_set = set_of my_hand;
          opp_set = set_of opp_hand;
          common = list_of (set_rank e 0) (set_and my_set opp_set);
          my_unique = list_of (set_rank e 1) (set_sub my_set opp_set);
          opp_unique = list_of (set_rank e 2) (set_sub opp_set my_set)
      in if length common = 2 then
           (case list_of (set_rank e 3) my_set of
              [a, b] \<Rightarrow> if beats a b then ([], Inr b) else ([], Inr a)
            | _ \<Rightarrow> ([], Inl ValueError))
         else
           (case (if length common = 1
                  then common_one_block e my_hand common my_unique opp_unique
                  else None) of
              Some r \<Rightarrow> r
            | None \<Rightarrow>
                if length common = 0 then ([], random_choice e my_hand)
                else ([], Inr ''rock'')))"

text \<open>Two concrete interpreters, used to run the model on examples.\<close>

definition env_first :: env where
  "env_first = \<lparr>set_rank = (\<lambda>k s. 0), randbelow = (\<lambda>n. 0)\<rparr>"

definition env_last :: env where
  "env_last = \<lparr>set_rank = (\<lambda>k s. length s), randbelow = (\<lambda>n. n - 1)\<rparr>"

definition valid_gesture :: "string \<Rightarrow> bool" where
  "valid_gesture g = (g \<in> set GESTURES)"

section \<open>Hands\<close>

text \<open>
  A \<^verbatim>\<open>Hand\<close> is a mutable object: the classifier writes its \<^verbatim>\<open>player\<close> and
  \<^verbatim>\<open>side\<close> attributes in place, through whatever list holds a reference to it.
  Objects therefore live in a store, and the lists of the solver hold references.
  Coordinates are the detector's normalised floats; only their order is used, so
  they are modelled by the reals they denote.
\<close>

record Hand =
  gesture_id :: int
  x_center :: real
  y_center :: real
  width :: real
  height :: real
  player :: "string option"
  side :: "string option"

definition Hand_init :: "int \<Rightarrow> real \<Rightarrow> real \<Rightarrow> real \<Rightarrow> real \<Rightarrow> Hand" where
  "Hand_init g x y w h =
     \<lparr>gesture_id = g, x_center = x, y_center = y, width = w, height = h,
      player = None, side = None\<rparr>"

type_synonym ref = nat
type_synonym store = "ref \<Rightarrow> Hand"

section \<open>The hand classifier\<close>

text \<open>
  The loop of \<^verbatim>\<open>_assign_hands_to_players\<close> over \<^verbatim>\<open>self.hands\<close>: the state is the
  store and the two lists built so far.
\<close>

fun assign_loop :: "ref list \<Rightarrow> store \<times> ref list \<times> ref list \<Rightarrow> store \<times> ref list \<times> ref list" where
  "assign_loop [] st = st"
| "assign_loop (hand # rest) (hp, opponent_hands, my_hands) =
     (if y_center (hp hand) < 0.5 then
        assign_loop rest
          (hp(hand := (hp hand)\<lparr>player := Some ''OPPONENT''\<rparr>), opponent_hands @ [hand], my_hands)
      else
        assign_loop rest
          (hp(hand := (hp hand)\<lparr>player := Some ''MINE''\<rparr>), opponent_hands, my_hands @ [hand]))"

text \<open>
  The whole method; it returns the store and the values of \<^verbatim>\<open>self.opponent_hands\<close>
  and \<^verbatim>\<open>self.my_hands\<close>. Python's \<^verbatim>\<open>list.sort\<close> is stable, as \<open>sort_key\<close> is.
\<close>

definition assign_hands_to_players :: "store \<Rightarrow> ref list \<Rightarrow> store \<times> ref list \<times> ref list" where
  "assign_hands_to_players hp hands =
     (case assign_loop hands (hp, [], []) of
        (hp1, opponent_hands, my_hands) \<Rightarrow>
          (let my_sorted = sort_key (\<lambda>h. x_center (hp1 h)) my_hands;
               hp2 = (if length my_sorted \<ge> 2 then
                        (let hpl = hp1(my_sorted ! 0 := (hp1 (my_sorted ! 0))\<lparr>side := Some ''LEFT''\<rparr>)
                         in hpl(my_sorted ! 1 := (hpl (my_sorted ! 1))\<lparr>side := Some ''RIGHT''\<rparr>))
                      else hp1);
               opp_sorted = sort_key (\<lambda>h. x_center (hp2 h)) opponent_hands
           in (hp2, opp_sorted, my_sorted)))"

section \<open>The resolver\<close>

text \<open>Decimal rendering of a length, as an f-string renders an int.\<close>

fun str_nat :: "nat \<Rightarrow> string" where
  "str_nat n =
     (if n < 10 then [''0123456789'' ! n]
      else str_nat (n div 10) @ [''0123456789'' ! (n mod 10)])"

text \<open>\<^verbatim>\<open>str.capitalize\<close> on ASCII text: first letter upper case, the rest lower case.\<close>

definition upper_char :: "char \<Rightarrow> char" where
  "upper_char c =
     (case map_of (zip ''abcdefghijklmnopqrstuvwxyz'' ''ABCDEFGHIJKLMNOPQRSTUVWXYZ'') c of
        Some u \<Rightarrow> u
      | None \<Rightarrow> c)"

definition lower_char :: "char \<Rightarrow> char" where
  "lower_char c =
     (case map_of (zip ''ABCDEFGHIJKLMNOPQRSTUVWXYZ'' ''abcdefghijklmnopqrstuvwxyz'') c of
        Some l \<Rightarrow> l
      | None \<Rightarrow> c)"

definition capitalize :: "string \<Rightarrow> string" where
  "capitalize s = (case s of [] \<Rightarrow> [] | c # cs \<Rightarrow> upper_char c # map lower_char cs)"

text \<open>
  The messages are the UTF-8 bytes of the source's strings: the warning sign is
  U+26A0 U+FE0F, the check mark is U+2705, and a line break is byte 10.
\<close>

definition warning_sign :: string where
  "warning_sign = [CHR 0xE2, CHR 0x9A, CHR 0xA0, CHR 0xEF, CHR 0xB8, CHR 0x8F]"

definition check_mark :: string where
  "check_mark = [CHR 0xE2, CHR 0x9C, CHR 0x85]"

definition count_error_message :: "nat \<Rightarrow> nat \<Rightarrow> string" where
  "count_error_message n_opp n_my =
     warning_sign @ '' Error: Model detected '' @ str_nat n_opp @ '' opponent hand(s) and '' @
     str_nat n_my @ '' of your hand(s). Need two of each for the game.''"

definition logic_error_message :: "string \<Rightarrow> string" where
  "logic_error_message gesture_to_remove =
     warning_sign @
     '' Logic Error: Could not find the physical hand matching the required removal gesture: **'' @
     gesture_to_remove @ ''**''"

definition result_message :: "string list \<Rightarrow> string list \<Rightarrow> string \<Rightarrow> string \<Rightarrow> string" where
  "result_message my_gesture_names opp_gesture_names gesture_to_remove hand_to_remove_side =
     [CHR 0x0A] @ ''--- Game Analysis ---'' @ [CHR 0x0A] @
     ''Your hands: **'' @ capitalize (my_gesture_names ! 0) @ ''** (Left), **'' @
     capitalize (my_gesture_names ! 1) @ ''** (Right)'' @ [CHR 0x0A] @
     ''Opponent'' @ [CHR 0x27] @ ''s hands: **'' @ capitalize (opp_gesture_names ! 0) @ ''**, **'' @
     capitalize (opp_gesture_names ! 1) @ ''**'' @ [CHR 0x0A] @
     ''Custom Logic Determined Remove: **'' @ capitalize gesture_to_remove @ ''**'' @ [CHR 0x0A] @
     check_mark @ '' **ACTION: REMOVE your '' @ hand_to_remove_side @ '' hand.**''"

text \<open>
  The list comprehension \<^verbatim>\<open>[self.gesture_names[h.gesture_id] for h in hs]\<close>: the first
  id missing from the dictionary raises KeyError.
\<close>

fun gesture_names_of :: "(int \<rightharpoonup> string) \<Rightarrow> store \<Rightarrow> ref list \<Rightarrow> error + string list" where
  "gesture_names_of gm hp [] = Inr []"
| "gesture_names_of gm hp (h # hs) =
     (case gm (gesture_id (hp h)) of
        None \<Rightarrow> Inl (KeyError (gesture_id (hp h)))
      | Some g \<Rightarrow>
          (case gesture_names_of gm hp hs of
             Inl err \<Rightarrow> Inl err
           | Inr gs \<Rightarrow> Inr (g # gs)))"

text \<open>
  The side of the hand to retract. The source looks the two names up in the
  dictionary again; the lookups have succeeded before, so these are the first two
  entries of \<^verbatim>\<open>my_gesture_names\<close>.
\<close>

definition hand_to_remove_side :: "string list \<Rightarrow> string \<Rightarrow> string option" where
  "hand_to_remove_side my_gesture_names gesture_to_remove =
     (if my_gesture_names ! 0 = gesture_to_remove \<and> my_gesture_names ! 1 = gesture_to_remove
      then Some ''LEFT''
      else if my_gesture_names ! 0 = gesture_to_remove then Some ''LEFT''
      else if my_gesture_names ! 1 = gesture_to_remove then Some ''RIGHT''
      else None)"

text \<open>
  \<^verbatim>\<open>RPSCustomSolver.solve\<close>: the store after classification, the lines printed, and
  the string returned or the exception raised.
\<close>

definition solve :: "env \<Rightarrow> store \<Rightarrow> ref list \<Rightarrow> store \<times> outcome" where
  "solve e hp hands =
     (case assign_hands_to_players hp hands of
        (hp', opponent_hands, my_hands) \<Rightarrow>
          if length opponent_hands < 2 \<or> length my_hands < 2 then
            (hp', [], Inr (count_error_message (length opponent_hands) (length my_hands)))
          else
            (case gesture_names_of GESTURE_ID_MAP hp' my_hands of
               Inl err \<Rightarrow> (hp', [], Inl err)
             | Inr my_gesture_names \<Rightarrow>
                 (case gesture_names_of GESTURE_ID_MAP hp' opponent_hands of
                    Inl err \<Rightarrow> (hp', [], Inl err)
                  | Inr opp_gesture_names \<Rightarrow>
                      (case remove_gesture e my_gesture_names opp_gesture_names of
                         (out, Inl err) \<Rightarrow> (hp', out, Inl err)
                       | (out, Inr gesture_to_remove) \<Rightarrow>
                           (case hand_to_remove_side my_gesture_names gesture_to_remove of
                              None \<Rightarrow> (hp', out, Inr (logic_error_message gesture_to_remove))
                            | Some sd \<Rightarrow>
                                (hp', out,
                                 Inr (result_message my_gesture_names opp_gesture_names
                                        gesture_to_remove sd)))))))"

text \<open>A store built from a list of freshly constructed hands, at references 0, 1, ...\<close>

definition store_of :: "Hand list \<Rightarrow> store" where
  "store_of hs = (\<lambda>r. if r < length hs then hs ! r else Hand_init 0 0 0 0 0)"

text \<open>
  Three scenes for running the model: four hands with \<^verbatim>\<open>y_center\<close> 0.2, 0.3, 0.7 and
  0.8, five hands with three of them in the upper half of the frame, and five hands
  with three of them in the lower half, showing rock, paper and scissors.
\<close>

definition example_hands :: "Hand list" where
  "example_hands =
     [Hand_init 0 0.6 0.2 0.1 0.1, Hand_init 2 0.3 0.3 0.1 0.1,
      Hand_init 0 0.7 0.7 0.1 0.1, Hand_init 1 0.2 0.8 0.1 0.1]"

definition crowded_hands :: "Hand list" where
  "crowded_hands =
     [Hand_init 0 0.2 0.2 0.1 0.1, Hand_init 2 0.5 0.3 0.1 0.1, Hand_init 2 0.8 0.1 0.1 0.1,
      Hand_init 0 0.3 0.7 0.1 0.1, Hand_init 1 0.6 0.8 0.1 0.1]"

definition three_mine_hands :: "Hand list" where
  "three_mine_hands =
     [Hand_init 0 0.3 0.2 0.1 0.1, Hand_init 1 0.7 0.3 0.1 0.1,
      Hand_init 0 0.2 0.7 0.1 0.1, Hand_init 1 0.5 0.8 0.1 0.1, Hand_init 2 0.8 0.75 0.1 0.1]"

section \<open>Python sets as duplicate-free lists\<close>

lemma set_list_of [simp]: "set (list_of rk s) = set s"
  by (simp add: list_of_def)

lemma length_list_of: "length (list_of rk s) = length s"
  by (simp add: list_of_def)

lemma distinct_list_of [simp]: "distinct (list_of rk s) = distinct s"
  by (simp add: list_of_def)

lemma set_set_of [simp]: "set (set_of xs) = set xs"
  by (simp add: set_of_def)

lemma distinct_set_of [simp]: "distinct (set_of xs)"
  by (simp add: set_of_def)

lemma set_set_and [simp]: "set (set_and s t) = set s \<inter> set t"
  by (auto simp: set_and_def)

lemma set_set_sub [simp]: "set (set_sub s t) = set s - set t"
  by (auto simp: set_sub_def)

lemma distinct_set_and [simp]: "distinct s \<Longrightarrow> distinct (set_and s t)"
  by (simp add: set_and_def)

lemma distinct_set_sub [simp]: "distinct s \<Longrightarrow> distinct (set_sub s t)"
  by (simp add: set_sub_def)

lemma length_common: "length (list_of rk (set_and (set_of m) (set_of p))) = card (set m \<inter> set p)"
  using distinct_card [of "set_and (set_of m) (set_of p)"] by (simp add: length_list_of)

lemma length_unique: "length (list_of rk (set_sub (set_of m) (set_of p))) = card (set m - set p)"
  using distinct_card [of "set_sub (set_of m) (set_of p)"] by (simp add: length_list_of)

lemma length_my_set: "length (list_of rk (set_of m)) = card (set m)"
  using distinct_card [of "set_of m"] by (simp add: length_list_of)

lemma distinct_singleton: "distinct l \<Longrightarrow> set l = {x} \<Longrightarrow> l = [x]"
proof (cases l)
  case Nil
  assume "set l = {x}"
  with Nil show ?thesis by simp
next
  case (Cons y ys)
  assume d: "distinct l" and s: "set l = {x}"
  from s Cons have "y = x" "set ys \<subseteq> {x}" by auto
  moreover from d Cons have "y \<notin> set ys" by simp
  ultimately have "ys = []" by (cases ys) auto
  with Cons \<open>y = x\<close> show ?thesis by simp
qed

lemma distinct_doubleton:
  assumes "distinct l" "set l = {a, b}" "a \<noteq> b"
  shows "l = [a, b] \<or> l = [b, a]"
proof -
  have "length l = 2" using distinct_card [OF assms(1)] assms(2,3) by simp
  then obtain x y where l: "l = [x, y]"
    by (cases l; cases "tl l") auto
  with assms(2) have "{x, y} = {a, b}" by simp
  then show ?thesis using l by (auto simp: doubleton_eq_iff)
qed

lemma beats_asym: "beats a b \<Longrightarrow> \<not> beats b a"
  by (auto simp: beats_def)

lemma beats_total: "valid_gesture a \<Longrightarrow> valid_gesture b \<Longrightarrow> a \<noteq> b \<Longrightarrow> beats a b \<or> beats b a"
  by (auto simp: beats_def valid_gesture_def GESTURES_def)

lemma rg_common_two:
  assumes "set mine = {a, b}" "set opp = {a, b}" "beats a b"
  shows "remove_gesture e mine opp = ([], Inr b)"
proof -
  from assms(3) have ne: "a \<noteq> b" by (auto simp: beats_def)
  have c: "card (set mine \<inter> set opp) = 2" using assms(1,2) ne by simp
  have "list_of (set_rank e 3) (set_of mine) = [a, b] \<or> list_of (set_rank e 3) (set_of mine) = [b, a]"
    by (rule distinct_doubleton) (simp_all add: assms(1) ne)
  then show ?thesis
    using c beats_asym [OF assms(3)] assms(3)
    by (auto simp: remove_gesture_def Let_def length_common)
qed

lemma unpack_three:
  "length xs = 3 \<Longrightarrow> (case xs of [a, b] \<Rightarrow> f a b | _ \<Rightarrow> d) = d"
  by (cases xs; cases "tl xs"; cases "tl (tl xs)") auto

lemma rg_unpack_raises:
  assumes "card (set mine \<inter> set opp) = 2" "card (set mine) = 3"
  shows "remove_gesture e mine opp = ([], Inl ValueError)"
proof -
  have "length (list_of (set_rank e 3) (set_of mine)) = 3"
    unfolding length_my_set by (rule assms(2))
  from unpack_three [OF this] show ?thesis
    using assms(1) by (simp add: remove_gesture_def Let_def length_common)
qed

lemma rg_common_one:
  assumes "set mine \<inter> set opp = {c}" "set mine - set opp = {m}" "set opp - set mine = {p}"
  shows "remove_gesture e mine opp =
    (if beats m p then ([], Inr m) else if beats p m then ([], Inr c) else ([], Inr ''rock''))"
proof -
  have c: "\<And>rk. list_of rk (set_and (set_of mine) (set_of opp)) = [c]"
    by (rule distinct_singleton) (simp_all add: assms(1))
  have m: "\<And>rk. list_of rk (set_sub (set_of mine) (set_of opp)) = [m]"
    by (rule distinct_singleton) (simp_all add: assms(2))
  have p: "\<And>rk. list_of rk (set_sub (set_of opp) (set_of mine)) = [p]"
    by (rule distinct_singleton) (simp_all add: assms(3))
  show ?thesis
    by (simp add: remove_gesture_def common_one_block_def Let_def c m p)
qed

lemma rg_warn:
  assumes "card (set mine \<inter> set opp) = 1"
    "card (set mine - set opp) \<noteq> 1 \<or> card (set opp - set mine) \<noteq> 1"
  shows "remove_gesture e mine opp = ([warning_text], random_choice e mine)"
  using assms
  by (simp add: remove_gesture_def common_one_block_def Let_def length_common length_unique)

lemma rg_common_zero:
  assumes "set mine \<inter> set opp = {}"
  shows "remove_gesture e mine opp = ([], random_choice e mine)"
  using assms
  by (simp add: remove_gesture_def Let_def length_common)

lemma random_choice_mem: "xs \<noteq> [] \<Longrightarrow> \<exists>x\<in>set xs. random_choice e xs = Inr x"
  by (simp add: random_choice_def)


lemma random_choice_same: "random_choice e [g, g] = Inr g"
  using random_choice_mem [of "[g, g]" e] by simp

lemma rg_common_two_mem:
  assumes "card (set mine \<inter> set opp) = 2" "card (set mine) = 2"
  shows "\<exists>g\<in>set mine. remove_gesture e mine opp = ([], Inr g)"
proof -
  from assms(2) obtain a b where ab: "set mine = {a, b}" "a \<noteq> b"
    by (auto simp: card_2_iff)
  have "list_of (set_rank e 3) (set_of mine) = [a, b] \<or> list_of (set_rank e 3) (set_of mine) = [b, a]"
    by (rule distinct_doubleton) (simp_all add: ab)
  then have "remove_gesture e mine opp = ([], Inr a) \<or> remove_gesture e mine opp = ([], Inr b)"
    using assms(1) by (auto simp: remove_gesture_def Let_def length_common)
  then show ?thesis using ab(1) by auto
qed

lemma rg_fall_through:
  assumes "2 < card (set mine \<inter> set opp)"
  shows "remove_gesture e mine opp = ([], Inr ''rock'')"
proof -
  from assms have "set mine \<inter> set opp \<noteq> {}" by auto
  with assms show ?thesis
    by (simp add: remove_gesture_def Let_def length_common)
qed

lemma card_gestures: "card (set GESTURES) = 3"
  by (simp add: GESTURES_def)

lemma valid_subset: "(\<forall>x\<in>set xs. valid_gesture x) \<Longrightarrow> set xs \<subseteq> set GESTURES"
  by (auto simp: valid_gesture_def)

lemma valid_card: "(\<forall>x\<in>set xs. valid_gesture x) \<Longrightarrow> card (set xs) \<le> 3"
  using card_mono [of "set GESTURES" "set xs"] valid_subset [of xs] card_gestures by simp

lemma length_two: "length xs = 2 \<Longrightarrow> \<exists>x y. xs = [x, y]"
  by (cases xs; cases "tl xs") auto

lemma unique_singleton:
  assumes "length xs = 2" "set xs \<inter> S = {c}" "n \<in> set xs - S"
  shows "set xs - S = {n}"
proof -
  from length_two [OF assms(1)] obtain x y where xs: "xs = [x, y]" by blast
  have c: "c \<in> set xs" "c \<in> S" using assms(2) by blast+
  have n: "n \<in> set xs" "n \<notin> S" using assms(3) by blast+
  have "c \<noteq> n" using c n by blast
  have "set xs = {c, n}" using c(1) n(1) \<open>c \<noteq> n\<close> unfolding xs by fastforce
  then show ?thesis using c(2) n(2) by (simp add: insert_Diff_if)
qed


lemma rg_rules:
  assumes "length mine = 2" "length opp = 2"
    "set mine \<inter> set opp = {c}" "my_nc \<in> set mine - set opp" "opp_nc \<in> set opp - set mine"
  shows "remove_gesture e mine opp =
    (if beats my_nc opp_nc then ([], Inr my_nc)
     else if beats opp_nc my_nc then ([], Inr c) else ([], Inr ''rock''))"
proof -
  have m: "set mine - set opp = {my_nc}"
    by (rule unique_singleton [OF assms(1,3,4)])
  have "set opp \<inter> set mine = {c}" using assms(3) by (simp add: Int_commute)
  then have p: "set opp - set mine = {opp_nc}"
    by (rule unique_singleton [OF assms(2) _ assms(5)])
  show ?thesis by (rule rg_common_one [OF assms(3) m p])
qed

lemma inter_full:
  assumes "length xs = 2" "card (set xs \<inter> S) = 2"
  shows "set xs \<inter> S = set xs"
proof (rule card_seteq)
  show "finite (set xs)" by simp
  show "set xs \<inter> S \<subseteq> set xs" by simp
  have "card (set xs) \<le> length xs" by (rule card_length)
  then show "card (set xs) \<le> card (set xs \<inter> S)" using assms by simp
qed

section \<open>The beats relation\<close>

text \<open>
  Claim C7. \<^verbatim>\<open>beats\<close> is irreflexive on all strings; of two distinct gestures
  exactly one beats the other; rock beats scissors, scissors beats paper and paper
  beats rock.
\<close>

theorem beats_cycle:
  "\<not> beats x x \<and>
   (valid_gesture a \<and> valid_gesture b \<and> a \<noteq> b \<longrightarrow> (beats a b \<noteq> beats b a)) \<and>
   beats ''rock'' ''scissors'' \<and> beats ''scissors'' ''paper'' \<and> beats ''paper'' ''rock''"
  by (auto simp: beats_def valid_gesture_def GESTURES_def)

theorem beats_cycle_witness:
  "\<not> beats ''rock'' ''rock'' \<and> valid_gesture ''rock'' \<and> valid_gesture ''paper'' \<and>
   beats ''rock'' ''paper'' \<noteq> beats ''paper'' ''rock''"
  using beats_cycle [of "''rock''" "''rock''" "''paper''"]
  by (simp add: valid_gesture_def GESTURES_def)

section \<open>The gesture remover\<close>

text \<open>
  Where \<^verbatim>\<open>remove_gesture\<close> returns an element of \<^verbatim>\<open>my_hand\<close>: on lists of valid
  gestures with \<^verbatim>\<open>my_hand\<close> not empty, whatever the iteration order and the random
  draw, unless \<^verbatim>\<open>my_hand\<close> holds all three gestures while exactly two of them occur
  in \<^verbatim>\<open>opp_hand\<close>.
\<close>

lemma remove_gesture_member:
  assumes v1: "\<forall>x\<in>set mine. valid_gesture x" and v2: "\<forall>x\<in>set opp. valid_gesture x"
    and ne: "mine \<noteq> []"
    and ex: "\<not> (card (set mine) = 3 \<and> card (set mine \<inter> set opp) = 2)"
  shows "\<exists>g\<in>set mine. snd (remove_gesture e mine opp) = Inr g"
proof -
  let ?k = "card (set mine \<inter> set opp)"
  consider (zero) "?k = 0" | (one) "?k = 1" | (two) "?k = 2" | (more) "2 < ?k"
    by arith
  then show ?thesis
  proof cases
    case zero
    then have "set mine \<inter> set opp = {}" by simp
    then show ?thesis
      using random_choice_mem [OF ne, of e] by (simp add: rg_common_zero)
  next
    case one
    show ?thesis
    proof (cases "card (set mine - set opp) \<noteq> 1 \<or> card (set opp - set mine) \<noteq> 1")
      case True
      then show ?thesis
        using random_choice_mem [OF ne, of e] one by (simp add: rg_warn)
    next
      case False
      then obtain m p where mp: "set mine - set opp = {m}" "set opp - set mine = {p}"
        by (auto simp: card_1_singleton_iff)
      from one obtain c where c: "set mine \<inter> set opp = {c}"
        by (auto simp: card_1_singleton_iff)
      have "m \<in> set mine" "m \<notin> set opp" "p \<in> set opp" "c \<in> set mine"
        using mp c by auto
      then have "valid_gesture m" "valid_gesture p" "m \<noteq> p"
        using v1 v2 by auto
      then have "beats m p \<or> beats p m" by (rule beats_total)
      then show ?thesis
        using \<open>m \<in> set mine\<close> \<open>c \<in> set mine\<close>
        by (auto simp: rg_common_one [OF c mp])
    qed
  next
    case two
    have "?k \<le> card (set mine)" by (rule card_mono) auto
    with two ex valid_card [OF v1] have "card (set mine) = 2" by arith
    from rg_common_two_mem [OF two this, of e] show ?thesis by auto
  next
    case more
    have "?k \<le> card (set mine)" by (rule card_mono) auto
    moreover have "set mine \<subseteq> set GESTURES" by (rule valid_subset [OF v1])
    ultimately have "set mine = set GESTURES"
      using more valid_card [OF v1] card_gestures
      by (intro card_subset_eq) auto
    then have "''rock'' \<in> set mine" by (simp add: GESTURES_def)
    then show ?thesis by (auto simp: rg_fall_through [OF more])
  qed
qed

text \<open>In particular it does so on two hands of mine, against any hands of the opponent.\<close>

lemma remove_gesture_member_pairs:
  assumes l: "length mine = 2"
    and v1: "\<forall>x\<in>set mine. valid_gesture x" and v2: "\<forall>x\<in>set opp. valid_gesture x"
  shows "\<exists>g\<in>set mine. snd (remove_gesture e mine opp) = Inr g"
proof (rule remove_gesture_member [OF v1 v2])
  show "mine \<noteq> []" using l by auto
  have "card (set mine) \<le> length mine" by (rule card_length)
  with l show "\<not> (card (set mine) = 3 \<and> card (set mine \<inter> set opp) = 2)" by simp
qed

text \<open>
  Claim C4, amended. For two-element lists of valid gestures sharing exactly one
  gesture, if the player's non-common gesture beats the opponent's non-common gesture
  then \<^verbatim>\<open>remove_gesture\<close> returns the player's non-common gesture and prints
  nothing. The instance the claim names is not one of these, since scissors beats
  paper: \<^verbatim>\<open>remove_gesture(["rock","paper"], ["rock","scissors"])\<close> is
  \<^verbatim>\<open>"rock"\<close>; an instance of the rule is
  \<^verbatim>\<open>remove_gesture(["rock","scissors"], ["rock","paper"]) = "scissors"\<close>.
\<close>

theorem remove_gesture_rule2:
  assumes "length mine = 2" "length opp = 2"
    "\<forall>g\<in>set mine. valid_gesture g" "\<forall>g\<in>set opp. valid_gesture g"
    "set mine \<inter> set opp = {c}" "my_nc \<in> set mine - set opp" "opp_nc \<in> set opp - set mine"
    "beats my_nc opp_nc"
  shows "remove_gesture e mine opp = ([], Inr my_nc) \<and>
    remove_gesture e [''rock'', ''paper''] [''rock'', ''scissors''] = ([], Inr ''rock'') \<and>
    remove_gesture e [''rock'', ''scissors''] [''rock'', ''paper''] = ([], Inr ''scissors'')"
proof (intro conjI)
  show "remove_gesture e mine opp = ([], Inr my_nc)"
    using rg_rules [OF assms(1,2,5,6,7), of e] assms(8) by simp
  show "remove_gesture e [''rock'', ''paper''] [''rock'', ''scissors''] = ([], Inr ''rock'')"
    using rg_rules [of "[''rock'', ''paper'']" "[''rock'', ''scissors'']" "''rock''" "''paper''"
        "''scissors''" e]
    by (simp add: beats_def)
  show "remove_gesture e [''rock'', ''scissors''] [''rock'', ''paper''] = ([], Inr ''scissors'')"
    using rg_rules [of "[''rock'', ''scissors'']" "[''rock'', ''paper'']" "''rock''" "''scissors''"
        "''paper''" e]
    by (simp add: beats_def)
qed

theorem remove_gesture_rule2_witness:
  "beats ''scissors'' ''paper'' \<and>
   remove_gesture env_last [''scissors'', ''rock''] [''rock'', ''paper''] = ([], Inr ''scissors'')"
  using remove_gesture_rule2 [of "[''scissors'', ''rock'']" "[''rock'', ''paper'']"
      "''rock''" "''scissors''" "''paper''" env_last]
  by (simp add: valid_gesture_def GESTURES_def beats_def)

text \<open>
  Claim C4, as stated, gives \<^verbatim>\<open>"paper"\<close> for mine = rock, paper against
  opponent = rock, scissors. Paper does not beat scissors, and the function returns
  the common gesture \<^verbatim>\<open>"rock"\<close>.
\<close>

theorem remove_gesture_rule2_instance_differs:
  "\<not> beats ''paper'' ''scissors'' \<and>
   snd (remove_gesture env_first [''rock'', ''paper''] [''rock'', ''scissors'']) = Inr ''rock'' \<and>
   snd (remove_gesture env_first [''rock'', ''paper''] [''rock'', ''scissors'']) \<noteq> Inr ''paper''"
  by (simp add: remove_gesture_def common_one_block_def set_of_def set_and_def set_sub_def
      list_of_def beats_def)

text \<open>
  Claim C5, amended. For two-element lists of valid gestures sharing exactly one
  gesture, if the opponent's non-common gesture beats the player's non-common gesture
  then \<^verbatim>\<open>remove_gesture\<close> returns the common gesture and prints nothing. The
  instance the claim names is not one of these, since scissors beats paper:
  \<^verbatim>\<open>remove_gesture(["scissors","rock"], ["paper","rock"])\<close> is
  \<^verbatim>\<open>"scissors"\<close>; an instance of the rule is
  \<^verbatim>\<open>remove_gesture(["paper","rock"], ["scissors","rock"]) = "rock"\<close>.
\<close>

theorem remove_gesture_rule4:
  assumes "length mine = 2" "length opp = 2"
    "\<forall>g\<in>set mine. valid_gesture g" "\<forall>g\<in>set opp. valid_gesture g"
    "set mine \<inter> set opp = {c}" "my_nc \<in> set mine - set opp" "opp_nc \<in> set opp - set mine"
    "beats opp_nc my_nc"
  shows "remove_gesture e mine opp = ([], Inr c) \<and>
    remove_gesture e [''scissors'', ''rock''] [''paper'', ''rock''] = ([], Inr ''scissors'') \<and>
    remove_gesture e [''paper'', ''rock''] [''scissors'', ''rock''] = ([], Inr ''rock'')"
proof (intro conjI)
  show "remove_gesture e mine opp = ([], Inr c)"
    using rg_rules [OF assms(1,2,5,6,7), of e] assms(8) beats_asym [OF assms(8)] by simp
  show "remove_gesture e [''scissors'', ''rock''] [''paper'', ''rock''] = ([], Inr ''scissors'')"
    using rg_rules [of "[''scissors'', ''rock'']" "[''paper'', ''rock'']" "''rock''" "''scissors''"
        "''paper''" e]
    by (simp add: beats_def)
  show "remove_gesture e [''paper'', ''rock''] [''scissors'', ''rock''] = ([], Inr ''rock'')"
    using rg_rules [of "[''paper'', ''rock'']" "[''scissors'', ''rock'']" "''rock''" "''paper''"
        "''scissors''" e]
    by (simp add: beats_def)
qed

theorem remove_gesture_rule4_witness:
  "beats ''paper'' ''rock'' \<and>
   remove_gesture env_last [''rock'', ''scissors''] [''scissors'', ''paper''] = ([], Inr ''scissors'')"
  using remove_gesture_rule4 [of "[''rock'', ''scissors'']" "[''scissors'', ''paper'']"
      "''scissors''" "''rock''" "''paper''" env_last]
  by (simp add: valid_gesture_def GESTURES_def beats_def)

text \<open>
  Claim C5, as stated, gives \<^verbatim>\<open>"rock"\<close> for mine = scissors, rock against
  opponent = paper, rock. The player's scissors beats the opponent's paper, and the
  function returns \<^verbatim>\<open>"scissors"\<close>.
\<close>

theorem remove_gesture_rule4_instance_differs:
  "\<not> beats ''paper'' ''scissors'' \<and>
   snd (remove_gesture env_first [''scissors'', ''rock''] [''paper'', ''rock'']) = Inr ''scissors'' \<and>
   snd (remove_gesture env_first [''scissors'', ''rock''] [''paper'', ''rock'']) \<noteq> Inr ''rock''"
  by (simp add: remove_gesture_def common_one_block_def set_of_def set_and_def set_sub_def
      list_of_def beats_def)

text \<open>
  Claim C6. When mine and opponent are two-element lists over the same two distinct
  valid gestures, \<^verbatim>\<open>remove_gesture\<close> returns the gesture of the pair that the
  other one beats, in whatever order the set is iterated; in particular rock,
  scissors against rock, scissors gives \<^verbatim>\<open>"scissors"\<close>.
\<close>

theorem remove_gesture_same_pair:
  assumes "length mine = 2" "length opp = 2" "valid_gesture a" "valid_gesture b" "a \<noteq> b"
    "set mine = {a, b}" "set opp = {a, b}"
  shows "((beats a b \<and> remove_gesture e mine opp = ([], Inr b)) \<or>
          (beats b a \<and> remove_gesture e mine opp = ([], Inr a))) \<and>
    remove_gesture e [''rock'', ''scissors''] [''rock'', ''scissors''] = ([], Inr ''scissors'')"
proof (intro conjI)
  from beats_total [OF assms(3,4,5)]
  show "(beats a b \<and> remove_gesture e mine opp = ([], Inr b)) \<or>
        (beats b a \<and> remove_gesture e mine opp = ([], Inr a))"
  proof
    assume ab: "beats a b"
    from rg_common_two [OF assms(6,7) ab, of e] ab show ?thesis by simp
  next
    assume ba: "beats b a"
    have "set mine = {b, a}" "set opp = {b, a}"
      using assms(6,7) by (simp_all add: insert_commute)
    from rg_common_two [OF this ba, of e] ba show ?thesis by simp
  qed
  have rs: "beats ''rock'' ''scissors''" by (simp add: beats_def)
  show "remove_gesture e [''rock'', ''scissors''] [''rock'', ''scissors''] = ([], Inr ''scissors'')"
    by (rule rg_common_two [OF _ _ rs]) simp_all
qed

theorem remove_gesture_same_pair_witness:
  "beats ''paper'' ''rock'' \<and>
   remove_gesture env_last [''paper'', ''rock''] [''rock'', ''paper''] = ([], Inr ''rock'')"
  using remove_gesture_same_pair [of "[''paper'', ''rock'']" "[''rock'', ''paper'']"
      "''rock''" "''paper''" env_last]
  by (simp add: valid_gesture_def GESTURES_def beats_def insert_commute)

text \<open>
  Claim C3, amended. When mine holds one gesture twice and opponent holds the same
  gesture twice, the set intersection has one element, not two: the call goes
  through the \<^verbatim>\<open>len(common) == 1\<close> block, prints the warning of the
  anomalous-input fallback and returns that gesture.
\<close>

theorem remove_gesture_identical_pair_warns:
  "length (list_of (set_rank e 0) (set_and (set_of [g, g]) (set_of [g, g]))) = 1 \<and>
   remove_gesture e [g, g] [g, g] = ([warning_text], Inr g)"
proof -
  have "remove_gesture e [g, g] [g, g] = ([warning_text], random_choice e [g, g])"
    by (rule rg_warn) simp_all
  then show ?thesis by (simp add: length_common random_choice_same)
qed

text \<open>
  Claim C3, as stated, sends mine = rock, rock against opponent = rock, rock through
  the \<^verbatim>\<open>len(common) == 2\<close> branch without a warning. The list of common
  gestures has length one there, and the warning is printed.
\<close>

theorem remove_gesture_identical_pair_not_common_two:
  "length (list_of (set_rank env_first 0)
      (set_and (set_of [''rock'', ''rock'']) (set_of [''rock'', ''rock'']))) \<noteq> 2 \<and>
   fst (remove_gesture env_first [''rock'', ''rock''] [''rock'', ''rock'']) = [warning_text]"
  by (simp add: remove_gesture_def common_one_block_def set_of_def set_and_def set_sub_def
      list_of_def)

text \<open>
  Claim C10. When the player's two gestures are the same gesture \<open>g\<close>,
  \<^verbatim>\<open>remove_gesture\<close> returns \<open>g\<close> without raising, for every opponent list
  (so for every list of at most two valid gestures), every iteration order and
  every random draw.
\<close>

theorem remove_gesture_identical_mine:
  "snd (remove_gesture e [g, g] opp) = Inr g"
proof (cases "g \<in> set opp")
  case True
  have "remove_gesture e [g, g] opp = ([warning_text], random_choice e [g, g])"
    using True by (intro rg_warn) simp_all
  then show ?thesis by (simp add: random_choice_same)
next
  case False
  have "remove_gesture e [g, g] opp = ([], random_choice e [g, g])"
    using False by (intro rg_common_zero) simp_all
  then show ?thesis by (simp add: random_choice_same)
qed

text \<open>
  Claim C9, as stated, covers every pair of two-element lists with one or two common
  gestures. Mine = rock, paper against opponent = rock, rock has one common gesture,
  takes the anomalous-input fallback, and its result depends on the random draw.
\<close>

theorem remove_gesture_fallback_varies:
  "snd (remove_gesture env_first [''rock'', ''paper''] [''rock'', ''rock'']) = Inr ''rock'' \<and>
   snd (remove_gesture env_last [''rock'', ''paper''] [''rock'', ''rock'']) = Inr ''paper'' \<and>
   card (set [''rock'', ''paper''] \<inter> set [''rock'', ''rock'']) = 1"
  by (simp add: remove_gesture_def common_one_block_def set_of_def set_and_def set_sub_def
      list_of_def random_choice_def env_first_def env_last_def)

text \<open>
  Claim C9, amended. For two-element lists of valid gestures with one or two common
  gestures, unless mine holds two distinct gestures while opponent holds one gesture
  twice, the outcome of \<^verbatim>\<open>remove_gesture\<close> (what it prints and what it
  returns) is the same under any two iteration orders and random sources.
\<close>

theorem remove_gesture_deterministic:
  assumes l1: "length mine = 2" and l2: "length opp = 2"
    and v1: "\<forall>g\<in>set mine. valid_gesture g" and v2: "\<forall>g\<in>set opp. valid_gesture g"
    and k: "card (set mine \<inter> set opp) = 1 \<or> card (set mine \<inter> set opp) = 2"
    and nf: "\<not> (mine ! 0 \<noteq> mine ! 1 \<and> opp ! 0 = opp ! 1)"
  shows "remove_gesture e1 mine opp = remove_gesture e2 mine opp"
proof -
  from length_two [OF l1] obtain m0 m1 where mine: "mine = [m0, m1]" by blast
  from length_two [OF l2] obtain p0 p1 where opp: "opp = [p0, p1]" by blast
  from k show ?thesis
  proof
    assume one: "card (set mine \<inter> set opp) = 1"
    then obtain c where c: "set mine \<inter> set opp = {c}"
      by (auto simp: card_1_singleton_iff)
    then have cm: "c \<in> set mine" and cp: "c \<in> set opp" by blast+
    show ?thesis
    proof (cases "m0 = m1")
      case True
      with cm mine have "set mine = {c}" by simp
      with cp have "set mine - set opp = {}" by simp
      then have "card (set mine - set opp) = 0" by (simp only: card.empty)
      then have "card (set mine - set opp) \<noteq> 1 \<or> card (set opp - set mine) \<noteq> 1"
        by arith
      from rg_warn [OF one this]
      have "remove_gesture e mine opp = ([warning_text], random_choice e mine)" for e .
      then show ?thesis using True mine by (simp add: random_choice_same)
    next
      case False
      with nf mine opp have pne: "p0 \<noteq> p1" by simp
      have "\<not> set mine \<subseteq> set opp"
      proof
        assume "set mine \<subseteq> set opp"
        then have "set mine \<inter> set opp = set mine" by blast
        with one have "card (set mine) = 1" by simp
        with False mine show False by simp
      qed
      then obtain n where n: "n \<in> set mine - set opp" by blast
      have "\<not> set opp \<subseteq> set mine"
      proof
        assume "set opp \<subseteq> set mine"
        then have "set mine \<inter> set opp = set opp" by blast
        with one have "card (set opp) = 1" by simp
        with pne opp show False by simp
      qed
      then obtain p where p: "p \<in> set opp - set mine" by blast
      show ?thesis by (simp add: rg_rules [OF l1 l2 c n p])
    qed
  next
    assume two: "card (set mine \<inter> set opp) = 2"
    have im: "set mine \<inter> set opp = set mine" by (rule inter_full [OF l1 two])
    have "card (set opp \<inter> set mine) = 2" using two by (simp add: Int_commute)
    from inter_full [OF l2 this] have ip: "set mine \<inter> set opp = set opp"
      by (simp add: Int_commute)
    from im two have "card (set mine) = 2" by simp
    then obtain a b where ab: "set mine = {a, b}" "a \<noteq> b"
      by (auto simp: card_2_iff)
    from im ip ab have pab: "set opp = {a, b}" by simp
    have "a \<in> set mine" "b \<in> set mine" using ab by simp_all
    with v1 have "valid_gesture a" "valid_gesture b" by blast+
    from beats_total [OF this ab(2)] show ?thesis
    proof
      assume "beats a b"
      then show ?thesis by (simp add: rg_common_two [OF ab(1) pab])
    next
      assume ba: "beats b a"
      have "set mine = {b, a}" "set opp = {b, a}"
        using ab(1) pab by (simp_all add: insert_commute)
      then show ?thesis using ba by (simp add: rg_common_two)
    qed
  qed
qed

theorem remove_gesture_deterministic_witness:
  "remove_gesture env_first [''rock'', ''paper''] [''paper'', ''scissors''] =
   remove_gesture env_last [''rock'', ''paper''] [''paper'', ''scissors'']"
  using remove_gesture_deterministic [of "[''rock'', ''paper'']" "[''paper'', ''scissors'']"
      env_first env_last]
  by (simp add: valid_gesture_def GESTURES_def)

section \<open>Properties of the hand classifier\<close>

text \<open>
  The loop labels every hand of the list and splits the list by the threshold; the
  method then sorts both halves by \<^verbatim>\<open>x_center\<close>, which the labelling leaves untouched.
\<close>

lemma y_center_upd:
  "y_center ((hp(a := (hp a)\<lparr>player := p\<rparr>)) h) = y_center (hp h)"
  by simp

lemma labelled_upd:
  "(\<lambda>r. if r \<in> set rest
        then ((hp(a := (hp a)\<lparr>player := Some (f (hp a))\<rparr>)) r)\<lparr>player := Some (f (hp r))\<rparr>
        else (hp(a := (hp a)\<lparr>player := Some (f (hp a))\<rparr>)) r) =
   (\<lambda>r. if r \<in> set (a # rest) then (hp r)\<lparr>player := Some (f (hp r))\<rparr> else hp r)"
  by (rule ext) simp

lemma assign_loop_eq:
  "assign_loop hands (hp, opp, my) =
     (\<lambda>r. if r \<in> set hands
          then (hp r)\<lparr>player := Some (if y_center (hp r) < 0.5 then ''OPPONENT'' else ''MINE'')\<rparr>
          else hp r,
      opp @ filter (\<lambda>h. y_center (hp h) < 0.5) hands,
      my @ filter (\<lambda>h. \<not> y_center (hp h) < 0.5) hands)"
proof (induction hands arbitrary: hp opp my)
  case Nil
  show ?case by simp
next
  case (Cons a rest)
  let ?f = "\<lambda>h. if y_center h < 0.5 then ''OPPONENT'' else ''MINE''"
  let ?hp1 = "hp(a := (hp a)\<lparr>player := Some (?f (hp a))\<rparr>)"
  have step: "assign_loop (a # rest) (hp, opp, my) =
      assign_loop rest (?hp1, if y_center (hp a) < 0.5 then opp @ [a] else opp,
        if y_center (hp a) < 0.5 then my else my @ [a])"
    by simp
  have ih: "assign_loop rest (?hp1, opp', my') =
      (\<lambda>r. if r \<in> set rest then (?hp1 r)\<lparr>player := Some (?f (hp r))\<rparr> else ?hp1 r,
       opp' @ filter (\<lambda>h. y_center (hp h) < 0.5) rest,
       my' @ filter (\<lambda>h. \<not> y_center (hp h) < 0.5) rest)" for opp' my'
    unfolding Cons.IH y_center_upd ..
  show ?case
    unfolding step ih labelled_upd [where f = ?f] by simp
qed

lemma assign_lists:
  "snd (assign_hands_to_players hp hands) =
     (sort_key (\<lambda>h. x_center (hp h)) (filter (\<lambda>h. y_center (hp h) < 0.5) hands),
      sort_key (\<lambda>h. x_center (hp h)) (filter (\<lambda>h. \<not> y_center (hp h) < 0.5) hands))"
proof -
  define hp1 where "hp1 = (\<lambda>r. if r \<in> set hands
      then (hp r)\<lparr>player := Some (if y_center (hp r) < 0.5 then ''OPPONENT'' else ''MINE'')\<rparr>
      else hp r)"
  have loop: "assign_loop hands (hp, [], []) =
      (hp1, filter (\<lambda>h. y_center (hp h) < 0.5) hands, filter (\<lambda>h. \<not> y_center (hp h) < 0.5) hands)"
    unfolding assign_loop_eq hp1_def by simp
  have k1: "x_center (hp1 h) = x_center (hp h)" for h
    by (simp add: hp1_def)
  have k2: "x_center ((if c then (hp1(a := (hp1 a)\<lparr>side := s\<rparr>))
                (b := ((hp1(a := (hp1 a)\<lparr>side := s\<rparr>)) b)\<lparr>side := t\<rparr>) else hp1) h) =
            x_center (hp h)" for c a b s t h
    by (simp add: k1)
  show ?thesis
    unfolding assign_hands_to_players_def loop prod.case Let_def k1 k2 by simp
qed

lemma assign_store:
  assumes hp1: "hp1 = (\<lambda>r. if r \<in> set hands
      then (hp r)\<lparr>player := Some (if y_center (hp r) < 0.5 then ''OPPONENT'' else ''MINE'')\<rparr>
      else hp r)"
    and my: "my = snd (snd (assign_hands_to_players hp hands))"
  shows "fst (assign_hands_to_players hp hands) =
     (if 2 \<le> length my
      then (hp1(my ! 0 := (hp1 (my ! 0))\<lparr>side := Some ''LEFT''\<rparr>))
             (my ! 1 := ((hp1(my ! 0 := (hp1 (my ! 0))\<lparr>side := Some ''LEFT''\<rparr>)) (my ! 1))
                \<lparr>side := Some ''RIGHT''\<rparr>)
      else hp1)"
proof -
  have loop: "assign_loop hands (hp, [], []) =
      (hp1, filter (\<lambda>h. y_center (hp h) < 0.5) hands, filter (\<lambda>h. \<not> y_center (hp h) < 0.5) hands)"
    unfolding assign_loop_eq hp1 by simp
  have k1: "x_center (hp1 h) = x_center (hp h)" for h
    by (simp add: hp1)
  have my2: "my = sort_key (\<lambda>h. x_center (hp h)) (filter (\<lambda>h. \<not> y_center (hp h) < 0.5) hands)"
    unfolding my assign_lists by simp
  show ?thesis
    unfolding my2
    unfolding assign_hands_to_players_def loop prod.case Let_def k1 by simp
qed

lemma two_or_more: "2 \<le> length xs \<Longrightarrow> \<exists>a b rest. xs = a # b # rest"
  by (cases xs; cases "tl xs") auto

text \<open>
  Claim C8. The detector builds one \<^verbatim>\<open>Hand\<close> object per box, so the list holds pairwise
  distinct objects. The classifier then sets \<^verbatim>\<open>player\<close> to OPPONENT on each hand with
  \<^verbatim>\<open>y_center < 0.5\<close> and to MINE on every other hand, and the two lists it builds hold
  exactly these hands. With at least two hands of mine, the first of the sorted list,
  whose \<^verbatim>\<open>x_center\<close> is the smallest, gets side LEFT, and the second, whose
  \<^verbatim>\<open>x_center\<close> is the smallest among the others, gets RIGHT; with fewer, no side is
  written at all. The side of an opponent hand is never written: it stays what it was,
  \<^verbatim>\<open>None\<close> on a freshly built hand. For \<^verbatim>\<open>y_center\<close> values 0.2, 0.3, 0.7, 0.8 the
  first two hands are OPPONENT and the last two MINE.
\<close>

theorem assign_hands_to_players_labels:
  assumes d: "distinct hands"
    and r: "assign_hands_to_players hp hands = (hp', opponent_hands, my_hands)"
  shows "(\<forall>h\<in>set hands.
            player (hp' h) = Some (if y_center (hp h) < 0.5 then ''OPPONENT'' else ''MINE'')) \<and>
         set opponent_hands = {h \<in> set hands. y_center (hp h) < 0.5} \<and>
         set my_hands = {h \<in> set hands. \<not> y_center (hp h) < 0.5} \<and>
         distinct opponent_hands \<and> distinct my_hands \<and>
         (\<forall>h. x_center (hp' h) = x_center (hp h) \<and> y_center (hp' h) = y_center (hp h)) \<and>
         (2 \<le> length my_hands \<longrightarrow>
            side (hp' (my_hands ! 0)) = Some ''LEFT'' \<and>
            side (hp' (my_hands ! 1)) = Some ''RIGHT'' \<and>
            (\<forall>h\<in>set my_hands. x_center (hp (my_hands ! 0)) \<le> x_center (hp h)) \<and>
            (\<forall>h\<in>set my_hands. h \<noteq> my_hands ! 0 \<longrightarrow>
               x_center (hp (my_hands ! 1)) \<le> x_center (hp h))) \<and>
         (length my_hands < 2 \<longrightarrow> (\<forall>h. side (hp' h) = side (hp h))) \<and>
         (\<forall>h\<in>set opponent_hands. side (hp' h) = side (hp h)) \<and>
         (map (\<lambda>h. y_center (hp h)) hands = [0.2, 0.3, 0.7, 0.8] \<longrightarrow>
            map (\<lambda>h. player (hp' h)) hands =
              [Some ''OPPONENT'', Some ''OPPONENT'', Some ''MINE'', Some ''MINE''])"
proof -
  define hp1 where "hp1 = (\<lambda>r. if r \<in> set hands
      then (hp r)\<lparr>player := Some (if y_center (hp r) < 0.5 then ''OPPONENT'' else ''MINE'')\<rparr>
      else hp r)"
  from r have my: "my_hands =
      sort_key (\<lambda>h. x_center (hp h)) (filter (\<lambda>h. \<not> y_center (hp h) < 0.5) hands)"
    and opp: "opponent_hands =
      sort_key (\<lambda>h. x_center (hp h)) (filter (\<lambda>h. y_center (hp h) < 0.5) hands)"
    using assign_lists [of hp hands] by simp_all
  have store: "hp' =
      (if 2 \<le> length my_hands
       then (hp1(my_hands ! 0 := (hp1 (my_hands ! 0))\<lparr>side := Some ''LEFT''\<rparr>))
              (my_hands ! 1 := ((hp1(my_hands ! 0 := (hp1 (my_hands ! 0))\<lparr>side := Some ''LEFT''\<rparr>))
                 (my_hands ! 1))\<lparr>side := Some ''RIGHT''\<rparr>)
       else hp1)"
    using assign_store [OF hp1_def, of my_hands] unfolding r fst_conv snd_conv by simp
  have f1: "side (hp1 h) = side (hp h)" "x_center (hp1 h) = x_center (hp h)"
    "y_center (hp1 h) = y_center (hp h)" for h
    by (simp_all add: hp1_def)
  have f2: "player (hp' h) = player (hp1 h)" "x_center (hp' h) = x_center (hp1 h)"
    "y_center (hp' h) = y_center (hp1 h)" for h
    by (simp_all add: store)
  have A: "\<forall>h\<in>set hands.
      player (hp' h) = Some (if y_center (hp h) < 0.5 then ''OPPONENT'' else ''MINE'')"
    unfolding f2 by (simp add: hp1_def)
  have B: "set opponent_hands = {h \<in> set hands. y_center (hp h) < 0.5}"
    "set my_hands = {h \<in> set hands. \<not> y_center (hp h) < 0.5}"
    by (simp_all add: my opp)
  have C: "distinct opponent_hands" "distinct my_hands"
    using d by (simp_all add: my opp)
  have D: "\<forall>h. x_center (hp' h) = x_center (hp h) \<and> y_center (hp' h) = y_center (hp h)"
    unfolding f2 f1 by simp
  have srt: "sorted (map (\<lambda>h. x_center (hp h)) my_hands)"
    unfolding my by (rule sorted_sort_key)
  have E: "side (hp' (my_hands ! 0)) = Some ''LEFT'' \<and>
      side (hp' (my_hands ! 1)) = Some ''RIGHT'' \<and>
      (\<forall>h\<in>set my_hands. x_center (hp (my_hands ! 0)) \<le> x_center (hp h)) \<and>
      (\<forall>h\<in>set my_hands. h \<noteq> my_hands ! 0 \<longrightarrow>
         x_center (hp (my_hands ! 1)) \<le> x_center (hp h))" if two: "2 \<le> length my_hands"
  proof -
    from two_or_more [OF two] obtain a b rest where abr: "my_hands = a # b # rest" by blast
    with C(2) have ne: "a \<noteq> b" by simp
    from srt abr have le: "x_center (hp a) \<le> x_center (hp b)"
      "\<forall>h\<in>set rest. x_center (hp a) \<le> x_center (hp h)"
      "\<forall>h\<in>set rest. x_center (hp b) \<le> x_center (hp h)"
      by simp_all
    have s: "side (hp' a) = Some ''LEFT''" "side (hp' b) = Some ''RIGHT''"
      using ne by (simp_all add: store abr)
    show ?thesis using s le by (simp add: abr)
  qed
  have G: "\<forall>h. side (hp' h) = side (hp h)" if "length my_hands < 2"
    using that by (simp add: store f1)
  have F: "\<forall>h\<in>set opponent_hands. side (hp' h) = side (hp h)"
  proof
    fix h assume h: "h \<in> set opponent_hands"
    with B have nm: "h \<notin> set my_hands" by simp
    show "side (hp' h) = side (hp h)"
    proof (cases "2 \<le> length my_hands")
      case True
      from two_or_more [OF True] obtain a b rest where "my_hands = a # b # rest" by blast
      then have "my_hands ! 0 \<in> set my_hands" "my_hands ! 1 \<in> set my_hands"
        by simp_all
      with nm have "h \<noteq> my_hands ! 0" "h \<noteq> my_hands ! 1" by blast+
      with True show ?thesis by (simp add: store f1)
    next
      case False
      then show ?thesis using G by simp
    qed
  qed
  have H: "map (\<lambda>h. player (hp' h)) hands =
      [Some ''OPPONENT'', Some ''OPPONENT'', Some ''MINE'', Some ''MINE'']"
    if m: "map (\<lambda>h. y_center (hp h)) hands = [0.2, 0.3, 0.7, 0.8]"
  proof -
    from m obtain h0 h1 h2 h3 where hs: "hands = [h0, h1, h2, h3]"
      and ys: "y_center (hp h0) = 0.2" "y_center (hp h1) = 0.3"
        "y_center (hp h2) = 0.7" "y_center (hp h3) = 0.8"
      by (auto simp: map_eq_Cons_conv)
    from A show ?thesis by (simp add: hs ys)
  qed
  from A B C D E F G H show ?thesis by blast
qed

theorem assign_hands_to_players_labels_witness:
  "map (\<lambda>h. player (fst (assign_hands_to_players (store_of example_hands) [0, 1, 2, 3]) h))
     [0, 1, 2, 3] = [Some ''OPPONENT'', Some ''OPPONENT'', Some ''MINE'', Some ''MINE''] \<and>
   snd (assign_hands_to_players (store_of example_hands) [0, 1, 2, 3]) = ([1, 0], [3, 2]) \<and>
   side (fst (assign_hands_to_players (store_of example_hands) [0, 1, 2, 3]) 3) = Some ''LEFT'' \<and>
   side (fst (assign_hands_to_players (store_of example_hands) [0, 1, 2, 3]) 2) = Some ''RIGHT'' \<and>
   side (fst (assign_hands_to_players (store_of example_hands) [0, 1, 2, 3]) 1) = None \<and>
   side (fst (assign_hands_to_players (store_of example_hands) [0, 1, 2, 3]) 0) = None"
proof -
  let ?R = "assign_hands_to_players (store_of example_hands) [0, 1, 2, 3]"
  have lists: "snd ?R = ([1, 0], [3, 2])"
    by (simp add: assign_lists store_of_def example_hands_def Hand_init_def)
  have l: "fst (snd ?R) = [1, 0]" "snd (snd ?R) = [3, 2]"
    unfolding lists by simp_all
  have y: "map (\<lambda>h. y_center (store_of example_hands h)) [0, 1, 2, 3] = [0.2, 0.3, 0.7, 0.8]"
    by (simp add: store_of_def example_hands_def Hand_init_def)
  have s: "side (store_of example_hands 0) = None" "side (store_of example_hands 1) = None"
    by (simp_all add: store_of_def example_hands_def Hand_init_def)
  have d: "distinct [0, 1, 2, 3::nat]" by simp
  have r: "?R = (fst ?R, fst (snd ?R), snd (snd ?R))" by simp
  note th = assign_hands_to_players_labels [OF d r, unfolded l]
  from th y have P: "map (\<lambda>h. player (fst ?R h)) [0, 1, 2, 3] =
      [Some ''OPPONENT'', Some ''OPPONENT'', Some ''MINE'', Some ''MINE'']"
    by blast
  from th have L: "side (fst ?R ([3, 2] ! 0)) = Some ''LEFT'' \<and> side (fst ?R ([3, 2] ! 1)) = Some ''RIGHT''"
    by simp
  from th have O: "\<forall>h\<in>set [1, 0]. side (fst ?R h) = side (store_of example_hands h)"
    by blast
  from P lists L O s show ?thesis by simp
qed

section \<open>Properties of the resolver\<close>

text \<open>
  The classifier changes no \<^verbatim>\<open>gesture_id\<close>, so what \<^verbatim>\<open>solve\<close> prints and returns
  is a function of the two sorted lists and of the store it was given.
\<close>

lemma gesture_id_assign:
  "gesture_id (fst (assign_hands_to_players hp hands) h) = gesture_id (hp h)"
  unfolding assign_store [OF refl refl] by simp

lemma gesture_names_of_cong:
  "(\<And>h. gesture_id (hp' h) = gesture_id (hp h)) \<Longrightarrow>
   gesture_names_of gm hp' hs = gesture_names_of gm hp hs"
  by (induction hs) (simp_all split: option.splits)

lemma length_assign:
  "length (fst (snd (assign_hands_to_players hp hands))) =
     length (filter (\<lambda>h. y_center (hp h) < 0.5) hands)"
  "length (snd (snd (assign_hands_to_players hp hands))) =
     length (filter (\<lambda>h. \<not> y_center (hp h) < 0.5) hands)"
  unfolding assign_lists by simp_all

lemma messages_differ: "count_error_message a b \<noteq> result_message m p g sd"
  by (simp add: count_error_message_def result_message_def warning_sign_def)

lemma solve_outcome:
  "snd (solve e hp hands) =
     (case snd (assign_hands_to_players hp hands) of
        (opponent_hands, my_hands) \<Rightarrow>
          if length opponent_hands < 2 \<or> length my_hands < 2 then
            ([], Inr (count_error_message (length opponent_hands) (length my_hands)))
          else
            (case gesture_names_of GESTURE_ID_MAP hp my_hands of
               Inl err \<Rightarrow> ([], Inl err)
             | Inr my_gesture_names \<Rightarrow>
                 (case gesture_names_of GESTURE_ID_MAP hp opponent_hands of
                    Inl err \<Rightarrow> ([], Inl err)
                  | Inr opp_gesture_names \<Rightarrow>
                      (case remove_gesture e my_gesture_names opp_gesture_names of
                         (out, Inl err) \<Rightarrow> (out, Inl err)
                       | (out, Inr gesture_to_remove) \<Rightarrow>
                           (case hand_to_remove_side my_gesture_names gesture_to_remove of
                              None \<Rightarrow> (out, Inr (logic_error_message gesture_to_remove))
                            | Some sd \<Rightarrow>
                                (out,
                                 Inr (result_message my_gesture_names opp_gesture_names
                                        gesture_to_remove sd)))))))"
proof -
  obtain hp' opp my where r: "assign_hands_to_players hp hands = (hp', opp, my)"
    by (cases "assign_hands_to_players hp hands") auto
  have "gesture_id (hp' h) = gesture_id (hp h)" for h
    using gesture_id_assign [of hp hands h] unfolding r by simp
  hence n: "gesture_names_of GESTURE_ID_MAP hp' hs = gesture_names_of GESTURE_ID_MAP hp hs" for hs
    by (rule gesture_names_of_cong)
  show ?thesis
    unfolding solve_def r n prod.case snd_conv
    by (simp split: sum.splits prod.splits option.splits)
qed

text \<open>
  Claim C1, as stated, asks for the count-mismatch message whenever a count differs
  from two, also when it is larger. The guard of \<^verbatim>\<open>solve\<close> is
  \<^verbatim>\<open>len(...) < 2\<close> on both lists: with three opponent hands and two of mine it goes on
  and returns a removal instruction.
\<close>

theorem solve_three_opponent_hands:
  "length (fst (snd (assign_hands_to_players (store_of crowded_hands) [0, 1, 2, 3, 4]))) = 3 \<and>
   length (snd (snd (assign_hands_to_players (store_of crowded_hands) [0, 1, 2, 3, 4]))) = 2 \<and>
   snd (solve env_first (store_of crowded_hands) [0, 1, 2, 3, 4]) =
     ([], Inr (result_message [''rock'', ''paper''] [''rock'', ''scissors'', ''scissors'']
                 ''rock'' ''LEFT'')) \<and>
   result_message [''rock'', ''paper''] [''rock'', ''scissors'', ''scissors''] ''rock'' ''LEFT''
     \<noteq> count_error_message 3 2"
proof -
  let ?hp = "store_of crowded_hands"
  have lists: "snd (assign_hands_to_players ?hp [0, 1, 2, 3, 4]) = ([0, 1, 2], [3, 4])"
    by (simp add: assign_lists store_of_def crowded_hands_def Hand_init_def)
  have my: "gesture_names_of GESTURE_ID_MAP ?hp [3, 4] = Inr [''rock'', ''paper'']"
    by (simp add: store_of_def crowded_hands_def Hand_init_def GESTURE_ID_MAP_def)
  have opp: "gesture_names_of GESTURE_ID_MAP ?hp [0, 1, 2] = Inr [''rock'', ''scissors'', ''scissors'']"
    by (simp add: store_of_def crowded_hands_def Hand_init_def GESTURE_ID_MAP_def)
  have rg: "remove_gesture env_first [''rock'', ''paper''] [''rock'', ''scissors'', ''scissors'']
      = ([], Inr ''rock'')"
    by (simp add: remove_gesture_def common_one_block_def env_first_def list_of_def set_of_def
        set_and_def set_sub_def beats_def Let_def)
  have sd: "hand_to_remove_side [''rock'', ''paper''] ''rock'' = Some ''LEFT''"
    by (simp add: hand_to_remove_side_def)
  have s: "snd (solve env_first ?hp [0, 1, 2, 3, 4]) =
     ([], Inr (result_message [''rock'', ''paper''] [''rock'', ''scissors'', ''scissors'']
                 ''rock'' ''LEFT''))"
    unfolding solve_outcome lists prod.case my opp by (simp add: rg sd)
  have l: "length (fst (snd (assign_hands_to_players ?hp [0, 1, 2, 3, 4]))) = 3"
     "length (snd (snd (assign_hands_to_players ?hp [0, 1, 2, 3, 4]))) = 2"
    unfolding lists by simp_all
  from s l messages_differ [of 3 2] show ?thesis by metis
qed

text \<open>
  Claim C1, amended. When fewer than two hands lie in the upper half of the frame
  (opponent) or fewer than two in the lower half (mine), \<^verbatim>\<open>solve\<close> prints nothing,
  raises nothing and returns the count-mismatch message carrying both counts; what it
  returns is no removal instruction.
\<close>

theorem solve_count_mismatch:
  assumes "length (filter (\<lambda>h. y_center (hp h) < 0.5) hands) < 2 \<or>
           length (filter (\<lambda>h. \<not> y_center (hp h) < 0.5) hands) < 2"
  shows "snd (solve e hp hands) =
           ([], Inr (count_error_message
                       (length (filter (\<lambda>h. y_center (hp h) < 0.5) hands))
                       (length (filter (\<lambda>h. \<not> y_center (hp h) < 0.5) hands)))) \<and>
         (\<forall>m p g sd. snd (snd (solve e hp hands)) \<noteq> Inr (result_message m p g sd))"
proof -
  have s: "snd (solve e hp hands) =
           ([], Inr (count_error_message
                       (length (filter (\<lambda>h. y_center (hp h) < 0.5) hands))
                       (length (filter (\<lambda>h. \<not> y_center (hp h) < 0.5) hands))))"
    unfolding solve_outcome assign_lists prod.case using assms by simp
  show ?thesis unfolding s using messages_differ by simp
qed

theorem solve_count_mismatch_witness:
  "snd (solve env_first (store_of example_hands) [0, 2, 3]) =
     ([], Inr (warning_sign @ '' Error: Model detected 1 opponent hand(s) and 2 of your hand(s). Need two of each for the game.''))"
  using solve_count_mismatch [of "store_of example_hands" "[0, 2, 3]" env_first]
  by (simp add: store_of_def example_hands_def Hand_init_def count_error_message_def)

section \<open>The remover on three hands of mine\<close>

text \<open>
  Claim C2 says that \<^verbatim>\<open>remove_gesture\<close> never raises and returns an element of
  \<^verbatim>\<open>mine\<close>. The guard of \<^verbatim>\<open>solve\<close> lets more than two hands through, so
  \<^verbatim>\<open>remove_gesture\<close> can be called with rock, paper and scissors as \<^verbatim>\<open>mine\<close> and
  rock and paper as \<^verbatim>\<open>opponent\<close>. Two gestures are common, the branch under
  \<^verbatim>\<open>len(common) == 2\<close> unpacks the three-element set into two names, and the call
  raises ValueError under every iteration order and random draw; \<^verbatim>\<open>solve\<close> passes
  the exception on. The block under \<^verbatim>\<open>len(common) == 1\<close> guards against such input
  and falls back to an arbitrary element; this branch has no such guard.
\<close>

theorem remove_gesture_three_of_mine_raises:
  "remove_gesture e [''rock'', ''paper'', ''scissors''] [''rock'', ''paper''] =
     ([], Inl ValueError) \<and>
   snd (assign_hands_to_players (store_of three_mine_hands) [0, 1, 2, 3, 4]) =
     ([0, 1], [2, 3, 4]) \<and>
   snd (solve e (store_of three_mine_hands) [0, 1, 2, 3, 4]) = ([], Inl ValueError)"
proof -
  let ?hp = "store_of three_mine_hands"
  have rg: "remove_gesture e [''rock'', ''paper'', ''scissors''] [''rock'', ''paper''] =
     ([], Inl ValueError)"
    by (rule rg_unpack_raises) (simp_all add: card_insert_if)
  have lists: "snd (assign_hands_to_players ?hp [0, 1, 2, 3, 4]) = ([0, 1], [2, 3, 4])"
    by (simp add: assign_lists store_of_def three_mine_hands_def Hand_init_def)
  have my: "gesture_names_of GESTURE_ID_MAP ?hp [2, 3, 4] = Inr [''rock'', ''paper'', ''scissors'']"
    by (simp add: store_of_def three_mine_hands_def Hand_init_def GESTURE_ID_MAP_def)
  have opp: "gesture_names_of GESTURE_ID_MAP ?hp [0, 1] = Inr [''rock'', ''paper'']"
    by (simp add: store_of_def three_mine_hands_def Hand_init_def GESTURE_ID_MAP_def)
  have s: "snd (solve e ?hp [0, 1, 2, 3, 4]) = ([], Inl ValueError)"
    unfolding solve_outcome lists prod.case my opp by (simp add: rg)
  from rg lists s show ?thesis by simp
qed

end
